theory Spec2Isabelle
  imports Main
begin

section \<open>The cosigner wait dialog of \<^verbatim>\<open>transaction_wait_dialog.py\<close>\<close>

text \<open>
  The source is one Qt dialog, \<^verbatim>\<open>TimeoutWaitDialog\<close>, and its front door
  \<^verbatim>\<open>show_timeout_wait_dialog\<close>. The dialog watches the signing locks that the
  cosigners of a multisignature wallet publish on a shared key-value server and counts
  down \<^verbatim>\<open>time_left_int\<close> once per second.

  The embedding keeps the fields the coordination logic reads and writes and the
  control flow of every method that touches them. The layout code, the transaction
  details that \<^verbatim>\<open>update\<close> renders (status, amount, fee, size) and the plugin hooks
  write none of these fields and are left out; they are taken not to raise.
\<close>

subsection \<open>Exceptions\<close>

text \<open>
  Every exception that can leave one of the modelled methods. \<open>SerializationError\<close>
  carries \<^verbatim>\<open>str(e)\<close> of the exception it wraps. \<open>StoreUnavailableError\<close> is the
  failure of a call to the server, \<open>KeyDerivationError\<close> the failure of
  \<^verbatim>\<open>BIP32Node.from_xkey\<close>, \<open>ValueError\<close> the failure of \<^verbatim>\<open>int(expire)\<close>
  (and of \<^verbatim>\<open>dialogs.remove\<close>, which the source catches).
\<close>

datatype error =
    SerializationError string
  | StoreUnavailableError
  | KeyDerivationError
  | ValueError

subsection \<open>The server\<close>

text \<open>
  \<^verbatim>\<open>electrum_rutanio.plugins.cosigner_pool.server\<close> is not part of the file. A value
  of type \<open>server\<close> is what the server answers while one method of the dialog runs:
  for every key either a value (\<^verbatim>\<open>None\<close> or a string) or no answer at all, and
  a time in seconds or no answer. Between two method calls the server may change, so
  every method takes its own \<open>server\<close>; within one call a key that is read twice
  gets the same answer.
\<close>

datatype 'a reply = Unavailable | Reply 'a

record server =
  get_reply :: "string \<Rightarrow> string option reply"
  current_time_reply :: "int reply"

definition server_get :: "server \<Rightarrow> string \<Rightarrow> error + string option" where
  "server_get srv key =
     (case get_reply srv key of
        Unavailable \<Rightarrow> Inl StoreUnavailableError
      | Reply v \<Rightarrow> Inr v)"

definition server_get_current_time :: "server \<Rightarrow> error + int" where
  "server_get_current_time srv =
     (case current_time_reply srv of
        Unavailable \<Rightarrow> Inl StoreUnavailableError
      | Reply t \<Rightarrow> Inr t)"

text \<open>Python's truth value of what \<^verbatim>\<open>server.get\<close> returned: \<^verbatim>\<open>None\<close> and the
  empty string are false, every other string is true.\<close>

definition truthy :: "string option \<Rightarrow> bool" where
  "truthy v = (case v of None \<Rightarrow> False | Some s \<Rightarrow> s \<noteq> [])"

subsection \<open>Transaction, keystores, wallet, main window\<close>

text \<open>
  Of the transaction only the outcome of \<^verbatim>\<open>tx.deserialize()\<close> matters:
  \<open>deserialize_raises\<close> is \<open>Some (str e)\<close> when it raises \<open>e\<close> and \<open>None\<close> when it
  returns. Of a keystore, \<open>keyhash\<close> is
  \<^verbatim>\<open>bh2u(crypto.sha256d(BIP32Node.from_xkey(xpub).eckey.get_public_key_bytes(compressed=True)))\<close>,
  \<open>None\<close> when \<^verbatim>\<open>from_xkey\<close> raises, and \<open>watching_only\<close> is
  \<^verbatim>\<open>keystore.is_watching_only()\<close>. \<open>multisig\<close> is
  \<^verbatim>\<open>type(self.wallet) == Multisig_Wallet\<close>; \<open>keystores\<close> are
  \<^verbatim>\<open>wallet.keystores.items()\<close> in iteration order.
\<close>

record transaction =
  deserialize_raises :: "string option"

record keystore =
  keyhash :: "string option"
  watching_only :: bool

record wallet =
  multisig :: bool
  keystores :: "(string \<times> keystore) list"

record main_window =
  window_wallet :: wallet

subsection \<open>The dialog\<close>

text \<open>
  \<open>locks\<close> is the dictionary \<^verbatim>\<open>self.locks\<close> in insertion order; \<open>keyhashes\<close> and
  \<open>cosigner_list\<close> are the two Python sets, kept as lists without repetition (Python
  fixes no order for the iteration over a set; the poll does not depend on it).
  \<open>visible\<close> is Qt's \<^verbatim>\<open>isVisible()\<close>; \<open>in_dialogs\<close> says whether the dialog is an
  element of the module's list \<^verbatim>\<open>dialogs\<close> (it is appended at most once, by
  \<^verbatim>\<open>show_timeout_wait_dialog\<close>). \<open>tx_desc\<close> is the text of the label of that
  name, and \<open>time_out_label\<close> the pair \<^verbatim>\<open>(mins, secs)\<close> that is formatted into the
  countdown label, \<open>None\<close> while no text has been set.
\<close>

record dialog =
  locks :: "(string \<times> string option) list"
  currently_signing :: "string option"
  timed_out :: bool
  keyhashes :: "string list"
  cosigner_list :: "string list"
  time_left_int :: int
  visible :: bool
  in_dialogs :: bool
  tx_desc :: string
  time_out_label :: "(int \<times> int) option"

definition DURATION_INT :: int where
  "DURATION_INT = 60 * 10"

text \<open>\<^verbatim>\<open>d[k] = v\<close> on a dictionary kept in insertion order: a key that is present
  keeps its place.\<close>

fun dict_set :: "'k \<Rightarrow> 'v \<Rightarrow> ('k \<times> 'v) list \<Rightarrow> ('k \<times> 'v) list" where
  "dict_set k v [] = [(k, v)]"
| "dict_set k v ((k', v') # kvs) =
     (if k' = k then (k, v) # kvs else (k', v') # dict_set k v kvs)"

text \<open>\<^verbatim>\<open>s.add(x)\<close> on a set.\<close>

definition set_add :: "'a \<Rightarrow> 'a list \<Rightarrow> 'a list" where
  "set_add x xs = (if x \<in> set xs then xs else xs @ [x])"

subsection \<open>Closing and showing (Qt)\<close>

text \<open>
  \<^verbatim>\<open>dialogs.remove(self)\<close> raises \<open>ValueError\<close> when the dialog is not in the list.
\<close>

definition dialogs_remove :: "dialog \<Rightarrow> error + dialog" where
  "dialogs_remove d =
     (if in_dialogs d then Inr (d\<lparr>in_dialogs := False\<rparr>) else Inl ValueError)"

text \<open>\<^verbatim>\<open>closeEvent\<close>: accept the event, remove the dialog from \<^verbatim>\<open>dialogs\<close>, and
  pass over the \<open>ValueError\<close> of a dialog that is not in the list.\<close>

definition closeEvent :: "dialog \<Rightarrow> dialog" where
  "closeEvent d =
     (case dialogs_remove d of
        Inr d' \<Rightarrow> d'
      | Inl e \<Rightarrow> d)"

text \<open>
  Qt's \<^verbatim>\<open>QWidget.close()\<close>: it sends the close event, and since \<^verbatim>\<open>closeEvent\<close>
  accepts it, hides the widget. It does not stop the timer. \<^verbatim>\<open>QWidget.show()\<close>
  makes the widget visible, also after an earlier \<^verbatim>\<open>close()\<close>.
\<close>

definition close :: "dialog \<Rightarrow> dialog" where
  "close d = (closeEvent d)\<lparr>visible := False\<rparr>"

definition show_dialog :: "dialog \<Rightarrow> dialog" where
  "show_dialog d = d\<lparr>visible := True\<rparr>"

text \<open>\<^verbatim>\<open>reject\<close> (the escape key) closes normally.\<close>

definition reject :: "dialog \<Rightarrow> dialog" where
  "reject d = close d"

subsection \<open>\<^verbatim>\<open>update\<close>\<close>

text \<open>
  The loop over \<^verbatim>\<open>self.cosigner_list\<close>, with \<^verbatim>\<open>lock_present\<close> as accumulator. A
  call that the server does not answer raises out of the loop.
\<close>

fun poll_locks :: "server \<Rightarrow> string list \<Rightarrow> bool \<Rightarrow> error + bool" where
  "poll_locks srv [] lock_present = Inr lock_present"
| "poll_locks srv (h # hs) lock_present =
     (case server_get srv (h @ ''_lock'') of
        Inl e \<Rightarrow> Inl e
      | Inr lock \<Rightarrow> poll_locks srv hs (if truthy lock then True else lock_present))"

text \<open>
  The part of \<^verbatim>\<open>update\<close> after the poll, as far as it is modelled:
  \<^verbatim>\<open>desc = self.currently_signing or "Information unavailable"\<close> goes into
  \<open>tx_desc\<close> (with the untranslated texts) and \<^verbatim>\<open>divmod(self.time_left_int, 60)\<close>
  into the countdown label.
\<close>

definition render :: "dialog \<Rightarrow> dialog" where
  "render d =
     (let desc = (case currently_signing d of
                    None \<Rightarrow> ''Information unavailable''
                  | Some s \<Rightarrow> if s = [] then ''Information unavailable'' else s)
      in d\<lparr>tx_desc := ''Currently Signing'' @ '': '' @ desc,
           time_out_label := Some (time_left_int d div 60, time_left_int d mod 60)\<rparr>)"

text \<open>
  \<^verbatim>\<open>update\<close>. An exception can only come from the poll, before any field is
  written: \<open>Inl e\<close> means that \<open>e\<close> was raised and the dialog is as it was.
\<close>

definition update :: "server \<Rightarrow> dialog \<Rightarrow> error + dialog" where
  "update srv d =
     (if time_left_int d mod 10 = 0 then
        (case poll_locks srv (cosigner_list d) False of
           Inl e \<Rightarrow> Inl e
         | Inr lock_present \<Rightarrow>
             Inr (render (if \<not> lock_present then close (d\<lparr>time_left_int := 0\<rparr>) else d)))
      else Inr (render d))"

subsection \<open>The timer\<close>

text \<open>\<^verbatim>\<open>timer_start\<close> creates the one-second timer and calls \<^verbatim>\<open>update\<close>. Nothing
  in the file stops the timer.\<close>

definition timer_start :: "server \<Rightarrow> dialog \<Rightarrow> error + dialog" where
  "timer_start srv d = update srv d"

text \<open>
  \<^verbatim>\<open>timer_timeout\<close>, the slot of the timer. The dialog object outlives an exception
  that leaves the slot: the result is the exception raised, if any, and the dialog as
  the call left it.
\<close>

definition timer_timeout :: "server \<Rightarrow> dialog \<Rightarrow> error option \<times> dialog" where
  "timer_timeout srv d =
     (let d1 = d\<lparr>time_left_int := time_left_int d - 1\<rparr>;
          d2 = (if time_left_int d1 = 0 \<and> visible d1
                then close (d1\<lparr>timed_out := True\<rparr>) else d1)
      in case update srv d2 of
           Inl e \<Rightarrow> (Some e, d2)
         | Inr d3 \<Rightarrow> (None, d3))"

text \<open>
  The timer fires once per second for as long as the dialog object lives. A run of
  ticks is a list of servers, one for each tick in turn. An exception that leaves the
  slot goes to the exception hook of the application, which is not part of the file;
  the run goes on with the dialog as the slot left it.
\<close>

fun ticks :: "server list \<Rightarrow> dialog \<Rightarrow> dialog" where
  "ticks [] d = d"
| "ticks (srv # srvs) d = ticks srvs (snd (timer_timeout srv d))"

subsection \<open>The constructor\<close>

text \<open>
  The loop over \<^verbatim>\<open>self.wallet.keystores.items()\<close>: a keystore that can sign goes
  into \<open>keyhashes\<close>; a watching-only one goes into \<open>cosigner_list\<close>, its lock is read
  into \<open>locks\<close>, and if the lock is held its name is read.
\<close>

fun watch_keystores :: "server \<Rightarrow> (string \<times> keystore) list \<Rightarrow> dialog \<Rightarrow> error + dialog" where
  "watch_keystores srv [] d = Inr d"
| "watch_keystores srv ((key, ks) # rest) d =
     (case keyhash ks of
        None \<Rightarrow> Inl KeyDerivationError
      | Some h \<Rightarrow>
          if \<not> watching_only ks then
            watch_keystores srv rest (d\<lparr>keyhashes := set_add h (keyhashes d)\<rparr>)
          else
            (case server_get srv (h @ ''_lock'') of
               Inl e \<Rightarrow> Inl e
             | Inr lock \<Rightarrow>
                 let d1 = d\<lparr>cosigner_list := set_add h (cosigner_list d),
                            locks := dict_set h lock (locks d)\<rparr>
                 in if truthy lock then
                      (case server_get srv (h @ ''_name'') of
                         Inl e \<Rightarrow> Inl e
                       | Inr name \<Rightarrow>
                           watch_keystores srv rest
                             (if truthy name then d1\<lparr>currently_signing := name\<rparr> else d1))
                    else watch_keystores srv rest d1))"

text \<open>
  The loop over \<^verbatim>\<open>self.locks.items()\<close> that seeds the countdown, with
  \<^verbatim>\<open>self.time_left_int\<close> as accumulator. \<open>py_int\<close> is Python's \<^verbatim>\<open>int\<close> on
  a string, \<open>None\<close> where it raises \<open>ValueError\<close>; the time is read before
  \<^verbatim>\<open>int(expire)\<close> is evaluated.
\<close>

fun seed_time_left ::
  "(string \<Rightarrow> int option) \<Rightarrow> server \<Rightarrow> (string \<times> string option) list \<Rightarrow> int \<Rightarrow> error + int" where
  "seed_time_left py_int srv [] t = Inr t"
| "seed_time_left py_int srv ((h, expire) # rest) t =
     (case expire of
        None \<Rightarrow> seed_time_left py_int srv rest t
      | Some s \<Rightarrow>
          if s = [] then seed_time_left py_int srv rest t
          else
            (case server_get_current_time srv of
               Inl e \<Rightarrow> Inl e
             | Inr now \<Rightarrow>
                 (case py_int s of
                    None \<Rightarrow> Inl ValueError
                  | Some e \<Rightarrow> seed_time_left py_int srv rest (DURATION_INT - (now - e)))))"

text \<open>The dialog as the first lines of \<^verbatim>\<open>__init__\<close> leave it. \<open>time_left_int\<close> is
  assigned only after the keystore loop; until then the field holds the value it is
  assigned first.\<close>

definition new_dialog :: dialog where
  "new_dialog =
     \<lparr>locks = [], currently_signing = None, timed_out = False, keyhashes = [],
      cosigner_list = [], time_left_int = DURATION_INT, visible = False,
      in_dialogs = False, tx_desc = [], time_out_label = None\<rparr>"

text \<open>
  \<^verbatim>\<open>TimeoutWaitDialog.__init__\<close>. \<open>srv0\<close> is the server during the keystore loop and
  the seeding, \<open>srv1\<close> during the \<^verbatim>\<open>update\<close> of \<^verbatim>\<open>timer_start\<close>, \<open>srv2\<close> during the
  last \<^verbatim>\<open>update\<close>. A constructor that raises leaves no dialog.
\<close>

definition TimeoutWaitDialog_init ::
  "(string \<Rightarrow> int option) \<Rightarrow> server \<Rightarrow> server \<Rightarrow> server \<Rightarrow> transaction \<Rightarrow> main_window
     \<Rightarrow> error + dialog" where
  "TimeoutWaitDialog_init py_int srv0 srv1 srv2 tx parent =
     (case deserialize_raises tx of
        Some msg \<Rightarrow> Inl (SerializationError msg)
      | None \<Rightarrow>
          (case (if multisig (window_wallet parent)
                 then watch_keystores srv0 (keystores (window_wallet parent)) new_dialog
                 else Inr new_dialog) of
             Inl e \<Rightarrow> Inl e
           | Inr d1 \<Rightarrow>
               (case seed_time_left py_int srv0 (locks d1) DURATION_INT of
                  Inl e \<Rightarrow> Inl e
                | Inr t \<Rightarrow>
                    (case timer_start srv1 (d1\<lparr>time_left_int := t\<rparr>) of
                       Inl e \<Rightarrow> Inl e
                     | Inr d2 \<Rightarrow> update srv2 d2))))"

subsection \<open>\<^verbatim>\<open>show_timeout_wait_dialog\<close>\<close>

text \<open>
  \<open>Returned d\<close>: the dialog was appended to \<^verbatim>\<open>dialogs\<close>, shown and returned.
  \<open>Reported msg\<close>: the constructor raised \<open>SerializationError\<close>,
  \<^verbatim>\<open>parent.show_critical(msg)\<close> was called and the function returned \<^verbatim>\<open>None\<close>.
  Any other exception of the constructor is not caught.
\<close>

datatype show_result = Returned dialog | Reported string

definition show_timeout_wait_dialog ::
  "(string \<Rightarrow> int option) \<Rightarrow> server \<Rightarrow> server \<Rightarrow> server \<Rightarrow> transaction \<Rightarrow> main_window
     \<Rightarrow> error + show_result" where
  "show_timeout_wait_dialog py_int srv0 srv1 srv2 tx parent =
     (case TimeoutWaitDialog_init py_int srv0 srv1 srv2 tx parent of
        Inl (SerializationError msg) \<Rightarrow>
          Inr (Reported (''Rutanio-Electrum was unable to deserialize the transaction:''
                         @ [CHR 0x0A] @ msg))
      | Inl e \<Rightarrow> Inl e
      | Inr d \<Rightarrow> Inr (Returned (show_dialog (d\<lparr>in_dialogs := True\<rparr>))))"

section \<open>Vocabulary of the statements\<close>

text \<open>
  What one read of the lock key of fingerprint \<open>h\<close> tells \<^verbatim>\<open>update\<close>: \<open>Some True\<close>
  when the value is true in Python's sense, \<open>Some False\<close> when it is \<^verbatim>\<open>None\<close> or
  empty, \<open>None\<close> when the server does not answer.
\<close>

definition holds_lock :: "server \<Rightarrow> string \<Rightarrow> bool option" where
  "holds_lock srv h =
     (case server_get srv (h @ ''_lock'') of
        Inl e \<Rightarrow> None
      | Inr lock \<Rightarrow> Some (truthy lock))"


text \<open>
  The names the keystore loop assigns to \<^verbatim>\<open>self.currently_signing\<close>, in order: for
  every watching-only keystore whose lock is held, the value of its name key when that
  is a non-empty string.
\<close>

fun held_names :: "server \<Rightarrow> (string \<times> keystore) list \<Rightarrow> string list" where
  "held_names srv [] = []"
| "held_names srv ((key, ks) # rest) =
     (case keyhash ks of
        None \<Rightarrow> held_names srv rest
      | Some h \<Rightarrow>
          if watching_only ks \<and> holds_lock srv h = Some True then
            (case server_get srv (h @ ''_name'') of
               Inr (Some n) \<Rightarrow> if n = [] then held_names srv rest else n # held_names srv rest
             | _ \<Rightarrow> held_names srv rest)
          else held_names srv rest)"

section \<open>Concrete inputs\<close>

text \<open>
  A reader of decimal numerals, for the examples that need a concrete \<open>py_int\<close>: on a
  string of ASCII digits with an optional minus sign it returns what Python's
  \<^verbatim>\<open>int\<close> returns.
\<close>

definition digit_of :: "char \<Rightarrow> nat option" where
  "digit_of c =
     (let n = (of_char c :: nat) in if 48 \<le> n \<and> n \<le> 57 then Some (n - 48) else None)"

fun dec_nat :: "string \<Rightarrow> nat \<Rightarrow> nat option" where
  "dec_nat [] acc = Some acc"
| "dec_nat (c # cs) acc =
     (case digit_of c of None \<Rightarrow> None | Some k \<Rightarrow> dec_nat cs (10 * acc + k))"

definition dec_int :: "string \<Rightarrow> int option" where
  "dec_int s =
     (case s of
        [] \<Rightarrow> None
      | c # cs \<Rightarrow>
          if c = CHR ''-'' then
            (if cs = [] then None else map_option (\<lambda>n. - int n) (dec_nat cs 0))
          else map_option int (dec_nat s 0))"

text \<open>A server that answers every call: the keys of the list hold their strings,
  every other key is absent, and the time is \<open>now\<close>. And a server that answers
  nothing.\<close>

definition store_of :: "(string \<times> string) list \<Rightarrow> int \<Rightarrow> server" where
  "store_of kvs now = \<lparr>get_reply = (\<lambda>key. Reply (map_of kvs key)), current_time_reply = Reply now\<rparr>"


text \<open>A transaction that deserializes; a two-of-two wallet with the own key \<open>me\<close> and
  the cosigner \<open>h1\<close>; a wallet that is not a multisignature wallet.\<close>

definition good_tx :: transaction where
  "good_tx = \<lparr>deserialize_raises = None\<rparr>"

definition cosigner_wallet :: main_window where
  "cosigner_wallet =
     \<lparr>window_wallet =
        \<lparr>multisig = True,
         keystores = [(''x1/'', \<lparr>keyhash = Some ''me'', watching_only = False\<rparr>),
                      (''x2/'', \<lparr>keyhash = Some ''h1'', watching_only = True\<rparr>)]\<rparr>\<rparr>"

definition standard_wallet :: main_window where
  "standard_wallet =
     \<lparr>window_wallet =
        \<lparr>multisig = False,
         keystores = [(''x/'', \<lparr>keyhash = Some ''me'', watching_only = False\<rparr>)]\<rparr>\<rparr>"

text \<open>A dialog of \<open>cosigner_wallet\<close> in the middle of its countdown: open, watching
  \<open>h1\<close>, with \<open>t\<close> seconds left.\<close>

definition watching :: "int \<Rightarrow> dialog" where
  "watching t =
     \<lparr>locks = [(''h1'', Some ''1000'')], currently_signing = None, timed_out = False,
      keyhashes = [''me''], cosigner_list = [''h1''], time_left_int = t, visible = True,
      in_dialogs = True, tx_desc = ''Currently Signing: Information unavailable'',
      time_out_label = Some (t div 60, t mod 60)\<rparr>"

text \<open>A server on which \<open>h1\<close> holds a lock that expired at time 0 while the time
  is 1000, and the dialog that \<^verbatim>\<open>show_timeout_wait_dialog\<close> returns for
  \<open>cosigner_wallet\<close> on that server.\<close>

definition stale_server :: server where
  "stale_server = store_of [(''h1_lock'', ''0'')] 1000"

definition stale_dialog :: dialog where
  "stale_dialog =
     \<lparr>locks = [(''h1'', Some ''0'')], currently_signing = None, timed_out = False,
      keyhashes = [''me''], cosigner_list = [''h1''], time_left_int = - 400, visible = True,
      in_dialogs = True, tx_desc = ''Currently Signing: Information unavailable'',
      time_out_label = Some (- 7, 20)\<rparr>"

text \<open>A server without any key, and the dialog that \<^verbatim>\<open>show_timeout_wait_dialog\<close>
  returns for \<open>standard_wallet\<close>, which watches nobody.\<close>

definition empty_server :: server where
  "empty_server = store_of [] 1000"

definition idle_dialog :: dialog where
  "idle_dialog =
     \<lparr>locks = [], currently_signing = None, timed_out = False, keyhashes = [],
      cosigner_list = [], time_left_int = 0, visible = True, in_dialogs = True,
      tx_desc = ''Currently Signing: Information unavailable'',
      time_out_label = Some (0, 0)\<rparr>"

text \<open>Two servers on which \<open>h1\<close> holds a lock written at time 1000, nine seconds
  later: one without a name for the holder, one with the name \<open>Bob\<close>.\<close>

definition anonymous_server :: server where
  "anonymous_server = store_of [(''h1_lock'', ''1000'')] 1009"

definition bob_server :: server where
  "bob_server = store_of [(''h1_lock'', ''1000''), (''h1_name'', ''Bob'')] 1009"


section \<open>Closing, rendering, polling: what each step writes\<close>

lemma close_fields:
  "visible (close d) = False" "in_dialogs (close d) = False"
  "time_left_int (close d) = time_left_int d" "timed_out (close d) = timed_out d"
  "currently_signing (close d) = currently_signing d"
  "cosigner_list (close d) = cosigner_list d" "locks (close d) = locks d"
  "tx_desc (close d) = tx_desc d" "time_out_label (close d) = time_out_label d"
  by (simp_all add: close_def closeEvent_def dialogs_remove_def)

lemma render_fields:
  "visible (render d) = visible d" "in_dialogs (render d) = in_dialogs d"
  "time_left_int (render d) = time_left_int d" "timed_out (render d) = timed_out d"
  "currently_signing (render d) = currently_signing d"
  "cosigner_list (render d) = cosigner_list d" "locks (render d) = locks d"
  by (simp_all add: render_def Let_def)

lemma holds_lock_cases:
  "holds_lock srv h = None \<longleftrightarrow> server_get srv (h @ ''_lock'') = Inl StoreUnavailableError"
  "holds_lock srv h = Some b \<longleftrightarrow> (\<exists>v. server_get srv (h @ ''_lock'') = Inr v \<and> truthy v = b)"
  by (auto simp: holds_lock_def server_get_def split: reply.splits)

text \<open>The poll reads the lock key of every fingerprint of the list: it raises as soon
  as one read is not answered, and otherwise reports whether some lock is held. The
  result does not depend on the order of the list.\<close>

lemma poll_locks_result:
  "poll_locks srv hs b =
     (if \<exists>h \<in> set hs. holds_lock srv h = None then Inl StoreUnavailableError
      else Inr (b \<or> (\<exists>h \<in> set hs. holds_lock srv h = Some True)))"
proof (induction hs arbitrary: b)
  case Nil
  show ?case by simp
next
  case (Cons h hs)
  show ?case
  proof (cases "get_reply srv (h @ ''_lock'')")
    case Unavailable
    then show ?thesis by (simp add: server_get_def holds_lock_def)
  next
    case (Reply v)
    then show ?thesis
      by (auto simp: Cons.IH server_get_def holds_lock_def)
  qed
qed

lemma update_no_poll:
  "time_left_int d mod 10 \<noteq> 0 \<Longrightarrow> update srv d = Inr (render d)"
  by (simp add: update_def)

lemma update_poll:
  "time_left_int d mod 10 = 0 \<Longrightarrow>
   update srv d =
     (if \<exists>h \<in> set (cosigner_list d). holds_lock srv h = None then Inl StoreUnavailableError
      else if \<exists>h \<in> set (cosigner_list d). holds_lock srv h = Some True then Inr (render d)
      else Inr (render (close (d\<lparr>time_left_int := 0\<rparr>))))"
  by (simp add: update_def poll_locks_result)

text \<open>The two ways through \<^verbatim>\<open>timer_timeout\<close>: the decrement reaches 0 on a visible
  dialog, or it does not.\<close>

lemma timer_timeout_at_one:
  assumes "time_left_int d = 1" and "visible d"
  shows "timer_timeout srv d =
     (case update srv (close (d\<lparr>time_left_int := 0, timed_out := True\<rparr>)) of
        Inl e \<Rightarrow> (Some e, close (d\<lparr>time_left_int := 0, timed_out := True\<rparr>))
      | Inr d3 \<Rightarrow> (None, d3))"
  using assms by (simp add: timer_timeout_def Let_def)

lemma timer_timeout_else:
  assumes "\<not> (time_left_int d = 1 \<and> visible d)"
  shows "timer_timeout srv d =
     (case update srv (d\<lparr>time_left_int := time_left_int d - 1\<rparr>) of
        Inl e \<Rightarrow> (Some e, d\<lparr>time_left_int := time_left_int d - 1\<rparr>)
      | Inr d3 \<Rightarrow> (None, d3))"
  using assms by (auto simp add: timer_timeout_def Let_def)

text \<open>Where a tick can leave the dialog: with the decrement alone (the poll raised),
  with the decrement rendered, or closed with the countdown at 0.\<close>

lemma tick_outcomes:
  "snd (timer_timeout srv d) = d\<lparr>time_left_int := time_left_int d - 1\<rparr>
   \<or> snd (timer_timeout srv d) = render (d\<lparr>time_left_int := time_left_int d - 1\<rparr>)
   \<or> (\<exists>d2. time_left_int d2 = 0 \<and> currently_signing d2 = currently_signing d \<and>
        (snd (timer_timeout srv d) = close d2 \<or> snd (timer_timeout srv d) = render (close d2)))"
proof (cases "time_left_int d = 1 \<and> visible d")
  case True
  let ?d2 = "close (d\<lparr>time_left_int := 0, timed_out := True\<rparr>)"
  have poll: "time_left_int ?d2 mod 10 = 0" by (simp add: close_fields)
  have "snd (timer_timeout srv d) = ?d2 \<or> snd (timer_timeout srv d) = render ?d2
        \<or> snd (timer_timeout srv d) = render (close (?d2\<lparr>time_left_int := 0\<rparr>))"
    using True by (simp add: timer_timeout_at_one update_poll [OF poll])
  then show ?thesis
    apply (elim disjE)
    subgoal by (rule disjI2, rule disjI2, rule exI [of _ "d\<lparr>time_left_int := 0, timed_out := True\<rparr>"]) simp
    subgoal by (rule disjI2, rule disjI2, rule exI [of _ "d\<lparr>time_left_int := 0, timed_out := True\<rparr>"]) simp
    subgoal by (rule disjI2, rule disjI2, rule exI [of _ "?d2\<lparr>time_left_int := 0\<rparr>"])
        (simp add: close_fields)
    done
next
  case False
  let ?d2 = "d\<lparr>time_left_int := time_left_int d - 1\<rparr>"
  show ?thesis
  proof (cases "time_left_int ?d2 mod 10 = 0")
    case True
    have "snd (timer_timeout srv d) = ?d2 \<or> snd (timer_timeout srv d) = render ?d2
        \<or> snd (timer_timeout srv d) = render (close (?d2\<lparr>time_left_int := 0\<rparr>))"
      using False by (simp add: timer_timeout_else update_poll [OF True])
    then show ?thesis
      apply (elim disjE)
      subgoal by simp
      subgoal by simp
      subgoal by (rule disjI2, rule disjI2, rule exI [of _ "?d2\<lparr>time_left_int := 0\<rparr>"])
        (simp add: close_fields)
      done
  next
    case nopoll: False
    then have "update srv ?d2 = Inr (render ?d2)" by (rule update_no_poll)
    with False show ?thesis by (simp add: timer_timeout_else)
  qed
qed

lemma tick_time_left:
  "time_left_int (snd (timer_timeout srv d)) = time_left_int d - 1
   \<or> (time_left_int (snd (timer_timeout srv d)) = 0 \<and> \<not> visible (snd (timer_timeout srv d)))"
  using tick_outcomes [of srv d]
  by (auto simp: render_fields close_fields)

lemma update_signing:
  "update srv d = Inr d' \<Longrightarrow> currently_signing d' = currently_signing d"
  by (auto simp: update_def render_fields close_fields split: if_splits sum.splits)

lemma tick_signing:
  "currently_signing (snd (timer_timeout srv d)) = currently_signing d"
  using tick_outcomes [of srv d]
  by (auto simp: render_fields close_fields)

lemma tick_at_one:
  assumes "visible d" and "time_left_int d = 1"
  shows "timed_out (snd (timer_timeout srv d)) \<and> \<not> visible (snd (timer_timeout srv d))
         \<and> \<not> in_dialogs (snd (timer_timeout srv d))
         \<and> time_left_int (snd (timer_timeout srv d)) = 0"
proof -
  let ?d2 = "close (d\<lparr>time_left_int := 0, timed_out := True\<rparr>)"
  have poll: "time_left_int ?d2 mod 10 = 0" by (simp add: close_fields)
  have "snd (timer_timeout srv d) = ?d2 \<or> snd (timer_timeout srv d) = render ?d2
        \<or> snd (timer_timeout srv d) = render (close (?d2\<lparr>time_left_int := 0\<rparr>))"
    using assms by (simp add: timer_timeout_at_one update_poll [OF poll])
  then show ?thesis
    by (auto simp: render_fields close_fields)
qed

lemma tick_visible:
  "visible (snd (timer_timeout srv d)) \<Longrightarrow> visible d"
  using tick_outcomes [of srv d]
  by (auto simp: render_fields close_fields)

text \<open>Runs of ticks. A dialog that is open after a run was open all along and has lost
  one second per tick; had it at least one second at the start, it has at least one
  left.\<close>

lemma ticks_visible: "visible (ticks srvs d) \<Longrightarrow> visible d"
  by (induction srvs arbitrary: d) (auto dest: tick_visible)

lemma ticks_open_time_left:
  "visible (ticks srvs d) \<Longrightarrow>
   time_left_int (ticks srvs d) = time_left_int d - int (length srvs)"
proof (induction srvs arbitrary: d)
  case Nil
  then show ?case by simp
next
  case (Cons srv srvs)
  let ?d' = "snd (timer_timeout srv d)"
  from Cons.prems have v: "visible (ticks srvs ?d')" by simp
  then have "visible ?d'" by (rule ticks_visible)
  with tick_time_left [of srv d] have "time_left_int ?d' = time_left_int d - 1" by auto
  with Cons.IH [OF v] show ?case by simp
qed

lemma ticks_open_positive:
  "visible (ticks srvs d) \<Longrightarrow> 1 \<le> time_left_int d \<Longrightarrow> 1 \<le> time_left_int (ticks srvs d)"
proof (induction srvs arbitrary: d)
  case Nil
  then show ?case by simp
next
  case (Cons srv srvs)
  let ?d' = "snd (timer_timeout srv d)"
  from Cons.prems have v: "visible (ticks srvs ?d')" by simp
  then have v': "visible ?d'" by (rule ticks_visible)
  then have vd: "visible d" by (rule tick_visible)
  from v' tick_time_left [of srv d] have t: "time_left_int ?d' = time_left_int d - 1" by auto
  from vd v' tick_at_one [of d srv] have "time_left_int d \<noteq> 1" by auto
  with Cons.prems(2) t have "1 \<le> time_left_int ?d'" by simp
  with Cons.IH [OF v] show ?case by simp
qed

lemma ticks_snoc: "ticks (srvs @ [srv]) d = snd (timer_timeout srv (ticks srvs d))"
  by (induction srvs arbitrary: d) simp_all



section \<open>Seeding the countdown\<close>

text \<open>The records the seeding iterates over are those of the watched fingerprints:
  the keys of \<^verbatim>\<open>self.locks\<close> are the elements of \<^verbatim>\<open>self.cosigner_list\<close>.\<close>

lemma dict_set_keys: "map fst (dict_set k v kvs) = set_add k (map fst kvs)"
  by (induction kvs) (force simp: set_add_def)+

lemma watch_keystores_locks_keys:
  "watch_keystores srv kss d = Inr d' \<Longrightarrow> map fst (locks d) = cosigner_list d
   \<Longrightarrow> map fst (locks d') = cosigner_list d'"
proof (induction srv kss d rule: watch_keystores.induct)
  case (1 srv d)
  then show ?case by simp
next
  case (2 srv key ks rest d)
  show ?case
  proof (cases "keyhash ks")
    case None
    with 2 show ?thesis by simp
  next
    case (Some h)
    show ?thesis
    proof (cases "watching_only ks")
      case False
      with 2 Some show ?thesis by simp
    next
      case True
      with 2 Some show ?thesis
        by (auto simp: Let_def dict_set_keys split: sum.splits if_splits)
    qed
  qed
qed



lemma dec_int_examples:
  "dec_int ''900'' = Some 900" "dec_int ''500'' = Some 500" "dec_int ''700'' = Some 700"
  "dec_int ''0'' = Some 0" "dec_int ''1000'' = Some 1000"
  by (simp_all add: dec_int_def digit_of_def)



section \<open>The concrete dialogs\<close>


lemma show_stale:
  "show_timeout_wait_dialog dec_int stale_server stale_server stale_server good_tx
       cosigner_wallet = Inr (Returned stale_dialog)"
  by (simp add: show_timeout_wait_dialog_def TimeoutWaitDialog_init_def good_tx_def
      cosigner_wallet_def new_dialog_def stale_server_def store_of_def server_get_def
      server_get_current_time_def truthy_def set_add_def dec_int_examples DURATION_INT_def
      timer_start_def update_def render_def show_dialog_def stale_dialog_def Let_def)

lemma show_anonymous:
  "show_timeout_wait_dialog dec_int anonymous_server anonymous_server anonymous_server good_tx
     cosigner_wallet = Inr (Returned (watching 591))"
  by (simp add: show_timeout_wait_dialog_def TimeoutWaitDialog_init_def good_tx_def
      cosigner_wallet_def new_dialog_def anonymous_server_def store_of_def server_get_def
      server_get_current_time_def truthy_def set_add_def dec_int_examples DURATION_INT_def
      timer_start_def update_def render_def show_dialog_def watching_def Let_def)

lemma show_bob:
  "show_timeout_wait_dialog dec_int bob_server bob_server bob_server good_tx cosigner_wallet
     = Inr (Returned ((watching 591)\<lparr>currently_signing := Some ''Bob'',
                                     tx_desc := ''Currently Signing: Bob''\<rparr>))"
  by (simp add: show_timeout_wait_dialog_def TimeoutWaitDialog_init_def good_tx_def
      cosigner_wallet_def new_dialog_def bob_server_def store_of_def server_get_def
      server_get_current_time_def truthy_def set_add_def dec_int_examples DURATION_INT_def
      timer_start_def update_def render_def show_dialog_def watching_def Let_def)

lemma tick_anonymous:
  "timer_timeout anonymous_server (watching 591) = (None, watching 590)"
  by (simp add: timer_timeout_def update_def watching_def server_get_def store_of_def
        anonymous_server_def truthy_def render_def Let_def)

section \<open>The poll on the ten-second cadence\<close>



section \<open>Timing out\<close>

text \<open>
  C3. On a dialog that is still open (visible), a tick whose decrement brings
  \<open>time_left_int\<close> to exactly 0 sets \<open>timed_out\<close> and closes the dialog on that
  tick, whatever the server answers to the poll that follows.
\<close>

theorem countdown_zero_times_out:
  assumes "visible d" and "time_left_int d = 1"
  shows "timed_out (snd (timer_timeout srv d)) \<and> \<not> visible (snd (timer_timeout srv d))
         \<and> \<not> in_dialogs (snd (timer_timeout srv d))
         \<and> time_left_int (snd (timer_timeout srv d)) = 0"
  using assms by (rule tick_at_one)

theorem countdown_zero_times_out_witness:
  "visible (watching 1) \<and> time_left_int (watching 1) = 1
   \<and> timed_out (snd (timer_timeout (store_of [(''h1_lock'', ''1000'')] 1599) (watching 1)))
   \<and> \<not> visible (snd (timer_timeout (store_of [(''h1_lock'', ''1000'')] 1599) (watching 1)))
   \<and> \<not> in_dialogs (snd (timer_timeout (store_of [(''h1_lock'', ''1000'')] 1599) (watching 1)))
   \<and> time_left_int (snd (timer_timeout (store_of [(''h1_lock'', ''1000'')] 1599) (watching 1))) = 0"
proof -
  have v: "visible (watching 1)" and t: "time_left_int (watching 1) = 1"
    by (simp_all add: watching_def)
  from countdown_zero_times_out [OF v t] v t show ?thesis by blast
qed

text \<open>The countdown run to its end: while some watched lock is held at every tick, the
  dialog stays open and loses one second per tick, and the tick that takes the last
  second times it out.\<close>

lemma tick_lock_held:
  assumes "time_left_int d \<noteq> 1" and "\<exists>h \<in> set (cosigner_list d). holds_lock srv h = Some True"
  shows "snd (timer_timeout srv d) = d\<lparr>time_left_int := time_left_int d - 1\<rparr>
       \<or> snd (timer_timeout srv d) = render (d\<lparr>time_left_int := time_left_int d - 1\<rparr>)"
proof -
  let ?d2 = "d\<lparr>time_left_int := time_left_int d - 1\<rparr>"
  from assms(1) have e: "\<not> (time_left_int d = 1 \<and> visible d)" by simp
  show ?thesis
  proof (cases "time_left_int ?d2 mod 10 = 0")
    case True
    with assms(2) have "update srv ?d2 = Inl StoreUnavailableError \<or> update srv ?d2 = Inr (render ?d2)"
      by (simp add: update_poll)
    then show ?thesis by (auto simp: timer_timeout_else [OF e])
  next
    case False
    then have "update srv ?d2 = Inr (render ?d2)" by (rule update_no_poll)
    then show ?thesis by (simp add: timer_timeout_else [OF e])
  qed
qed

lemma ticks_lock_held:
  assumes "\<forall>srv \<in> set srvs. \<exists>h \<in> set (cosigner_list d). holds_lock srv h = Some True"
    and "int (length srvs) < time_left_int d"
  shows "visible (ticks srvs d) = visible d \<and> timed_out (ticks srvs d) = timed_out d
       \<and> in_dialogs (ticks srvs d) = in_dialogs d
       \<and> cosigner_list (ticks srvs d) = cosigner_list d
       \<and> time_left_int (ticks srvs d) = time_left_int d - int (length srvs)"
  using assms
proof (induction srvs arbitrary: d)
  case Nil
  then show ?case by simp
next
  case (Cons srv srvs)
  let ?d' = "snd (timer_timeout srv d)"
  from Cons.prems have "time_left_int d \<noteq> 1"
    and "\<exists>h \<in> set (cosigner_list d). holds_lock srv h = Some True" by auto
  then have "?d' = d\<lparr>time_left_int := time_left_int d - 1\<rparr>
       \<or> ?d' = render (d\<lparr>time_left_int := time_left_int d - 1\<rparr>)"
    by (rule tick_lock_held)
  then have f: "visible ?d' = visible d" "timed_out ?d' = timed_out d"
    "in_dialogs ?d' = in_dialogs d"
    "cosigner_list ?d' = cosigner_list d" "time_left_int ?d' = time_left_int d - 1"
    by (auto simp: render_fields)
  with Cons.prems have "\<forall>srv \<in> set srvs. \<exists>h \<in> set (cosigner_list ?d'). holds_lock srv h = Some True"
    and "int (length srvs) < time_left_int ?d'" by auto
  from Cons.IH [OF this] f show ?case by simp
qed

lemma lock_held_until_timeout:
  assumes "visible d" and "1 \<le> time_left_int d"
    and "\<forall>srv \<in> set srvs. \<exists>h \<in> set (cosigner_list d). holds_lock srv h = Some True"
    and "int (length srvs) + 1 = time_left_int d"
  shows "visible (ticks srvs d) \<and> timed_out (ticks srvs d) = timed_out d
       \<and> time_left_int (ticks srvs d) = 1
       \<and> timed_out (ticks (srvs @ [srv]) d) \<and> \<not> visible (ticks (srvs @ [srv]) d)
       \<and> time_left_int (ticks (srvs @ [srv]) d) = 0"
proof -
  from assms(4) have "int (length srvs) < time_left_int d" by simp
  from ticks_lock_held [OF assms(3) this] assms(1,4)
  have a: "visible (ticks srvs d)" "timed_out (ticks srvs d) = timed_out d"
    "time_left_int (ticks srvs d) = 1" by auto
  from tick_at_one [OF a(1) a(3), of srv] a show ?thesis
    by (simp add: ticks_snoc)
qed

section \<open>The countdown from tick to tick\<close>

text \<open>
  C4, as the code has it. The claim that \<open>time_left_int\<close> is never negative fails
  right after the seeding: a lock that expired more than 600 seconds ago gives a
  negative seed, and nothing clamps it. Here the lock of \<open>h1\<close> expired at 0, the time
  is 1000, and the dialog that is returned has \<open>time_left_int = - 400\<close>.
\<close>

theorem seed_can_be_negative:
  "show_timeout_wait_dialog dec_int stale_server stale_server stale_server good_tx
       cosigner_wallet = Inr (Returned stale_dialog)
   \<and> time_left_int stale_dialog = - 400"
  by (simp add: show_stale) (simp add: stale_dialog_def)

text \<open>
  C4, amended. As long as the dialog is open, \<open>time_left_int\<close> falls by exactly one
  with every tick, so it never increases from one tick to the next; and a dialog
  that started with at least one second and is still open has at least one second
  left. For a single tick, open or not: from a value that is not negative the countdown
  never rises, and from a value of at least 1 it does not fall below 0. (The only step
  that raises the countdown is the forced 0 from a negative value, and that step closes
  the dialog.) The value itself is not bounded below: the seed is used as computed.
\<close>

theorem countdown_while_open:
  "(visible (ticks srvs d)
      \<longrightarrow> time_left_int (ticks srvs d) = time_left_int d - int (length srvs))
   \<and> (visible (ticks srvs d) \<and> 1 \<le> time_left_int d \<longrightarrow> 1 \<le> time_left_int (ticks srvs d))
   \<and> (0 \<le> time_left_int d
      \<longrightarrow> time_left_int (snd (timer_timeout srv d)) \<le> time_left_int d)
   \<and> (1 \<le> time_left_int d \<longrightarrow> 0 \<le> time_left_int (snd (timer_timeout srv d)))"
  using tick_time_left [of srv d] ticks_open_time_left [of srvs d] ticks_open_positive [of srvs d]
  by auto

lemma tick_anonymous_again:
  "timer_timeout anonymous_server (watching 590) = (None, watching 589)"
  by (simp add: timer_timeout_def update_def watching_def server_get_def store_of_def
        anonymous_server_def truthy_def render_def Let_def)

theorem countdown_while_open_witness:
  "ticks [anonymous_server, anonymous_server] (watching 591) = watching 589
   \<and> visible (watching 589) \<and> 1 \<le> time_left_int (watching 591)
   \<and> time_left_int (watching 591) = 591
   \<and> time_left_int (ticks [anonymous_server, anonymous_server] (watching 591)) = 589
   \<and> time_left_int (snd (timer_timeout anonymous_server (watching 591))) = 590"
proof -
  have r: "ticks [anonymous_server, anonymous_server] (watching 591) = watching 589"
    by (simp add: tick_anonymous tick_anonymous_again)
  have v: "visible (watching 589)" and t: "time_left_int (watching 591) = 591"
    by (simp_all add: watching_def)
  from countdown_while_open [of "[anonymous_server, anonymous_server]" "watching 591"
      anonymous_server] r v t
  have "time_left_int (ticks [anonymous_server, anonymous_server] (watching 591)) = 589"
    by simp
  with r v t show ?thesis by (simp add: tick_anonymous) (simp add: watching_def)
qed

text \<open>
  C5. The code at the input where the claim asks for a timeout: the lock of \<open>h1\<close> is
  stale (expired at 0, time 1000), the dialog is created with \<open>time_left_int = - 400\<close>,
  and the next tick takes it to \<open>- 401\<close> with \<open>timed_out\<close> still false and the dialog
  still open: \<^verbatim>\<open>timer_timeout\<close> tests \<^verbatim>\<open>self.time_left_int == 0\<close> only.
\<close>

theorem stale_seed_never_times_out:
  "show_timeout_wait_dialog dec_int stale_server stale_server stale_server good_tx
       cosigner_wallet = Inr (Returned stale_dialog)
   \<and> time_left_int stale_dialog = - 400
   \<and> timer_timeout stale_server stale_dialog
       = (None, stale_dialog\<lparr>time_left_int := - 401, time_out_label := Some (- 7, 19)\<rparr>)
   \<and> timed_out (snd (timer_timeout stale_server stale_dialog)) = False
   \<and> visible (snd (timer_timeout stale_server stale_dialog)) = True"
proof -
  have "timer_timeout stale_server stale_dialog
       = (None, stale_dialog\<lparr>time_left_int := - 401, time_out_label := Some (- 7, 19)\<rparr>)"
    by (simp add: timer_timeout_def update_def stale_dialog_def render_def Let_def)
  then show ?thesis
    by (simp add: show_stale) (simp add: stale_dialog_def)
qed

section \<open>A server that does not answer\<close>




section \<open>The name of the signer\<close>

lemma watch_keystores_signing:
  "watch_keystores srv kss d = Inr d' \<Longrightarrow>
   currently_signing d'
     = (if held_names srv kss = [] then currently_signing d
        else Some (last (held_names srv kss)))"
proof (induction srv kss d rule: watch_keystores.induct)
  case (1 srv d)
  then show ?case by simp
next
  case (2 srv key ks rest d)
  show ?case
  proof (cases "keyhash ks")
    case None
    with 2 show ?thesis by simp
  next
    case (Some h)
    show ?thesis
    proof (cases "watching_only ks")
      case False
      with 2 Some show ?thesis by simp
    next
      case True
      with 2 Some show ?thesis
        by (auto simp: holds_lock_def truthy_def Let_def
            split: sum.splits option.splits if_splits)
    qed
  qed
qed

lemma new_dialog_signing: "currently_signing new_dialog = None"
  by (simp add: new_dialog_def)

lemma init_signing:
  assumes "TimeoutWaitDialog_init py_int srv0 srv1 srv2 tx parent = Inr d"
  shows "currently_signing d
     = (if multisig (window_wallet parent)
           \<and> held_names srv0 (keystores (window_wallet parent)) \<noteq> []
        then Some (last (held_names srv0 (keystores (window_wallet parent))))
        else None)"
proof -
  from assms obtain d1 t d2 where
    w: "(if multisig (window_wallet parent)
         then watch_keystores srv0 (keystores (window_wallet parent)) new_dialog
         else Inr new_dialog) = Inr d1"
    and u1: "update srv1 (d1\<lparr>time_left_int := t\<rparr>) = Inr d2"
    and u2: "update srv2 d2 = Inr d"
    by (auto simp: TimeoutWaitDialog_init_def timer_start_def
        split: option.splits sum.splits)
  from u2 u1 have "currently_signing d = currently_signing d1"
    by (simp add: update_signing)
  moreover from w have "currently_signing d1
     = (if multisig (window_wallet parent)
           \<and> held_names srv0 (keystores (window_wallet parent)) \<noteq> []
        then Some (last (held_names srv0 (keystores (window_wallet parent))))
        else None)"
    by (auto simp: watch_keystores_signing new_dialog_signing split: if_splits)
  ultimately show ?thesis by simp
qed

text \<open>
  C7, as the code has it. The claim that the name is taken over on every later poll
  fails: \<^verbatim>\<open>update\<close> never reads a name key. The dialog is created while \<open>h1\<close> holds
  a lock without a name; one tick later the poll runs (590 is a multiple of 10), the
  lock is held and its name key holds \<open>Bob\<close>, and \<open>currently_signing\<close> is still
  \<^verbatim>\<open>None\<close>.
\<close>

theorem later_name_not_read:
  "show_timeout_wait_dialog dec_int anonymous_server anonymous_server anonymous_server good_tx
     cosigner_wallet = Inr (Returned (watching 591))
   \<and> holds_lock bob_server ''h1'' = Some True
   \<and> server_get bob_server (''h1'' @ ''_name'') = Inr (Some ''Bob'')
   \<and> timer_timeout bob_server (watching 591) = (None, watching 590)
   \<and> time_left_int (watching 590) mod 10 = 0
   \<and> currently_signing (watching 590) = None"
proof -
  have "timer_timeout bob_server (watching 591) = (None, watching 590)"
    by (simp add: timer_timeout_def update_def watching_def server_get_def store_of_def
        bob_server_def truthy_def render_def Let_def)
  then show ?thesis
    by (simp add: show_anonymous)
       (simp add: watching_def holds_lock_def server_get_def bob_server_def store_of_def
          truthy_def)
qed

text \<open>
  C7, amended. \<open>currently_signing\<close> is written by the constructor only: it is the
  name of the last watching-only keystore whose lock was held and whose name key held a
  non-empty string, and \<^verbatim>\<open>None\<close> when there is none (or the wallet is not a
  multisignature wallet). From then on it is sticky: no tick, no \<^verbatim>\<open>update\<close> and no
  close changes it, whatever the server holds.
\<close>

theorem signing_name_fixed_at_creation:
  "(show_timeout_wait_dialog py_int srv0 srv1 srv2 tx parent = Inr (Returned d0)
      \<longrightarrow> currently_signing d0
           = (if multisig (window_wallet parent)
                 \<and> held_names srv0 (keystores (window_wallet parent)) \<noteq> []
              then Some (last (held_names srv0 (keystores (window_wallet parent))))
              else None))
   \<and> currently_signing (snd (timer_timeout srv d)) = currently_signing d
   \<and> (update srv d = Inr d' \<longrightarrow> currently_signing d' = currently_signing d)
   \<and> currently_signing (close d) = currently_signing d"
proof (intro conjI impI)
  assume "show_timeout_wait_dialog py_int srv0 srv1 srv2 tx parent = Inr (Returned d0)"
  then obtain d1 where i: "TimeoutWaitDialog_init py_int srv0 srv1 srv2 tx parent = Inr d1"
    and d0: "d0 = show_dialog (d1\<lparr>in_dialogs := True\<rparr>)"
    by (auto simp: show_timeout_wait_dialog_def split: sum.splits error.splits)
  from d0 have "currently_signing d0 = currently_signing d1"
    by (simp add: show_dialog_def)
  with init_signing [OF i] show "currently_signing d0
           = (if multisig (window_wallet parent)
                 \<and> held_names srv0 (keystores (window_wallet parent)) \<noteq> []
              then Some (last (held_names srv0 (keystores (window_wallet parent))))
              else None)"
    by simp
next
  show "currently_signing (snd (timer_timeout srv d)) = currently_signing d"
    by (rule tick_signing)
next
  assume "update srv d = Inr d'"
  then show "currently_signing d' = currently_signing d" by (rule update_signing)
next
  show "currently_signing (close d) = currently_signing d" by (simp add: close_fields)
qed

text \<open>Created while Bob holds the lock, the dialog names Bob; when the lock and the
  name are gone from the server, the poll closes the dialog and the name stays.\<close>

theorem signing_name_fixed_at_creation_witness:
  "show_timeout_wait_dialog dec_int bob_server bob_server bob_server good_tx cosigner_wallet
     = Inr (Returned ((watching 591)\<lparr>currently_signing := Some ''Bob'',
                                     tx_desc := ''Currently Signing: Bob''\<rparr>))
   \<and> multisig (window_wallet cosigner_wallet)
   \<and> held_names bob_server (keystores (window_wallet cosigner_wallet)) = [''Bob'']
   \<and> currently_signing ((watching 591)\<lparr>currently_signing := Some ''Bob'',
                                       tx_desc := ''Currently Signing: Bob''\<rparr>) = Some ''Bob''
   \<and> (\<exists>d'. update empty_server ((watching 590)\<lparr>currently_signing := Some ''Bob''\<rparr>) = Inr d'
            \<and> visible d' = False \<and> currently_signing d' = Some ''Bob'')
   \<and> currently_signing (snd (timer_timeout empty_server
         ((watching 591)\<lparr>currently_signing := Some ''Bob''\<rparr>))) = Some ''Bob''"
proof -
  let ?d0 = "(watching 591)\<lparr>currently_signing := Some ''Bob'',
                            tx_desc := ''Currently Signing: Bob''\<rparr>"
  let ?d = "(watching 590)\<lparr>currently_signing := Some ''Bob''\<rparr>"
  have m: "multisig (window_wallet cosigner_wallet)"
    by (simp add: cosigner_wallet_def)
  have h: "held_names bob_server (keystores (window_wallet cosigner_wallet)) = [''Bob'']"
    by (simp add: cosigner_wallet_def bob_server_def store_of_def server_get_def
      holds_lock_def truthy_def)
  have u: "update empty_server ?d = Inr (render (close (?d\<lparr>time_left_int := 0\<rparr>)))"
    by (simp add: update_def watching_def empty_server_def store_of_def server_get_def
        truthy_def)
  have v: "visible (render (close (?d\<lparr>time_left_int := 0\<rparr>))) = False"
    by (simp add: render_fields close_fields)
  note inst = signing_name_fixed_at_creation
    [of dec_int bob_server bob_server bob_server good_tx cosigner_wallet ?d0
        empty_server _ "render (close (?d\<lparr>time_left_int := 0\<rparr>))"]
  from inst [of ?d] show_bob m h
  have n: "currently_signing ?d0 = Some ''Bob''" by simp
  from inst [of ?d] u
  have a: "currently_signing (render (close (?d\<lparr>time_left_int := 0\<rparr>))) = Some ''Bob''"
    by simp
  from inst [of "(watching 591)\<lparr>currently_signing := Some ''Bob''\<rparr>"]
  have b: "currently_signing (snd (timer_timeout empty_server
         ((watching 591)\<lparr>currently_signing := Some ''Bob''\<rparr>))) = Some ''Bob''"
    by simp
  from show_bob m h n u v a b show ?thesis by simp
qed

section \<open>A transaction that cannot be deserialized\<close>

text \<open>
  C8. When \<^verbatim>\<open>tx.deserialize()\<close> raises, whatever it raises, the constructor raises
  \<open>SerializationError\<close> carrying that failure; \<^verbatim>\<open>show_timeout_wait_dialog\<close>
  returns no dialog (nothing is appended to \<^verbatim>\<open>dialogs\<close> or shown) and reports the
  error to the user through \<^verbatim>\<open>parent.show_critical\<close>.
\<close>

theorem undeserializable_tx_reported:
  assumes "deserialize_raises tx = Some msg"
  shows "TimeoutWaitDialog_init py_int srv0 srv1 srv2 tx parent = Inl (SerializationError msg)
       \<and> show_timeout_wait_dialog py_int srv0 srv1 srv2 tx parent
           = Inr (Reported (''Rutanio-Electrum was unable to deserialize the transaction:''
                            @ [CHR 0x0A] @ msg))"
  using assms by (simp add: TimeoutWaitDialog_init_def show_timeout_wait_dialog_def)

theorem undeserializable_tx_reported_witness:
  "deserialize_raises \<lparr>deserialize_raises = Some ''bad magic''\<rparr> = Some ''bad magic''
   \<and> show_timeout_wait_dialog dec_int bob_server bob_server bob_server
        \<lparr>deserialize_raises = Some ''bad magic''\<rparr> cosigner_wallet
      = Inr (Reported (''Rutanio-Electrum was unable to deserialize the transaction:''
                       @ [CHR 0x0A] @ ''bad magic''))"
  using undeserializable_tx_reported
    [of "\<lparr>deserialize_raises = Some ''bad magic''\<rparr>" "''bad magic''" dec_int bob_server
        bob_server bob_server cosigner_wallet]
  by simp

section \<open>Cancelling\<close>

text \<open>
  C9. Cancelling is \<^verbatim>\<open>close()\<close>, reached from the Close button or, through
  \<^verbatim>\<open>reject\<close>, from the escape key. On a dialog that has been closed before, by the
  user, by the timeout or by \<^verbatim>\<open>update\<close>, a further close or reject changes no field
  and raises nothing: the \<open>ValueError\<close> of the second \<^verbatim>\<open>dialogs.remove\<close> is caught.
  So closing is idempotent, and on every dialog that is hidden and not in
  \<^verbatim>\<open>dialogs\<close> it is the identity.
\<close>

theorem cancel_idempotent:
  "close (close d) = close d \<and> reject (close d) = close d
   \<and> (\<not> visible d \<and> \<not> in_dialogs d \<longrightarrow> close d = d \<and> reject d = d)"
  by (simp add: reject_def close_def closeEvent_def dialogs_remove_def)

text \<open>A dialog closed once: closing or rejecting it again gives the same dialog, with
  its five seconds still on the countdown.\<close>

theorem cancel_idempotent_witness:
  "visible (close (watching 5)) = False \<and> in_dialogs (close (watching 5)) = False
   \<and> close (close (watching 5)) = close (watching 5)
   \<and> reject (close (watching 5)) = close (watching 5)
   \<and> time_left_int (close (close (watching 5))) = 5"
proof -
  have c: "\<not> visible (close (watching 5)) \<and> \<not> in_dialogs (close (watching 5))"
    by (simp add: close_fields)
  from cancel_idempotent [of "close (watching 5)"] c
  have "close (close (watching 5)) = close (watching 5)
        \<and> reject (close (watching 5)) = close (watching 5)" by blast
  with c show ?thesis by (simp add: close_fields) (simp add: watching_def)
qed

section \<open>A dialog that watches nobody\<close>

text \<open>What the constructor alone does when nobody is watched: it forces the countdown
  to 0 and closes, before any tick.\<close>

lemma unwatched_constructor_closes:
  assumes "deserialize_raises tx = None" and "\<not> multisig (window_wallet parent)"
  shows "\<exists>d. TimeoutWaitDialog_init py_int srv0 srv1 srv2 tx parent = Inr d
             \<and> time_left_int d = 0 \<and> \<not> visible d \<and> \<not> in_dialogs d \<and> \<not> timed_out d
             \<and> cosigner_list d = []"
  using assms
  by (simp add: TimeoutWaitDialog_init_def new_dialog_def DURATION_INT_def timer_start_def
      update_def render_fields close_fields)

text \<open>
  C10. The code at the input of the claim: the wallet is not a multisignature wallet,
  so nobody is watched. The constructor seeds 600, polls, forces \<open>time_left_int\<close> to
  0 and calls \<^verbatim>\<open>close()\<close>; but \<^verbatim>\<open>show_timeout_wait_dialog\<close> then appends the dialog
  to \<^verbatim>\<open>dialogs\<close> and shows it, and the timer, started before the poll, was never
  stopped: the dialog that is returned is open, and its first tick takes the countdown
  to \<open>- 1\<close> with the dialog still open.
\<close>

theorem no_lock_dialog_is_shown:
  "show_timeout_wait_dialog dec_int empty_server empty_server empty_server good_tx
       standard_wallet = Inr (Returned idle_dialog)
   \<and> time_left_int idle_dialog = 0 \<and> visible idle_dialog = True \<and> in_dialogs idle_dialog = True
   \<and> timer_timeout empty_server idle_dialog
       = (None, idle_dialog\<lparr>time_left_int := - 1, time_out_label := Some (- 1, 59)\<rparr>)
   \<and> visible (snd (timer_timeout empty_server idle_dialog)) = True"
proof -
  have a: "show_timeout_wait_dialog dec_int empty_server empty_server empty_server good_tx
       standard_wallet = Inr (Returned idle_dialog)"
    by (simp add: show_timeout_wait_dialog_def TimeoutWaitDialog_init_def good_tx_def
      standard_wallet_def new_dialog_def DURATION_INT_def
      timer_start_def update_def render_def show_dialog_def idle_dialog_def Let_def
      close_def closeEvent_def dialogs_remove_def)
  have b: "timer_timeout empty_server idle_dialog
       = (None, idle_dialog\<lparr>time_left_int := - 1, time_out_label := Some (- 1, 59)\<rparr>)"
    by (simp add: timer_timeout_def update_def idle_dialog_def render_def Let_def)
  show ?thesis
    by (simp add: a b) (simp add: idle_dialog_def)
qed

end
